theory Spec2Isabelle
  imports Complex_Main "HOL-Library.AList"
begin

section \<open>Values, rows and query results\<close>

text \<open>
  Python values that can occur in a result row. A \<open>float\<close> is modelled by the rational
  number it denotes (every finite float is one); rounding of float arithmetic is not
  modelled.
\<close>

datatype pyval = VNone | VBool bool | VInt int | VFloat rat | VStr string

datatype pyerror = TypeError | AttributeError

text \<open>
  A row is a Python \<open>dict\<close> from column name to value, kept as an association list in
  insertion order.
\<close>

type_synonym row = "(string \<times> pyval) list"

text \<open>\<open>str.lower()\<close>, on the ASCII letters.\<close>

definition lower_char :: "char \<Rightarrow> char" where
  "lower_char c =
     (let n = (of_char c :: nat) in if 65 \<le> n \<and> n \<le> 90 then char_of (n + 32) else c)"

definition lower :: "string \<Rightarrow> string" where
  "lower s = map lower_char s"

text \<open>Python's \<open>==\<close> on these values: \<open>bool\<close>, \<open>int\<close> and \<open>float\<close> compare by number.\<close>

fun num_of :: "pyval \<Rightarrow> rat option" where
  "num_of (VBool b) = Some (if b then 1 else 0)"
| "num_of (VInt i) = Some (of_int i)"
| "num_of (VFloat x) = Some x"
| "num_of _ = None"

fun py_eq :: "pyval \<Rightarrow> pyval \<Rightarrow> bool" where
  "py_eq VNone VNone = True"
| "py_eq (VStr s) (VStr t) = (s = t)"
| "py_eq a b = (case (num_of a, num_of b) of (Some x, Some y) \<Rightarrow> x = y | _ \<Rightarrow> False)"

text \<open>\<open>QueryResult\<close> of \<open>learndb_adapter.py\<close>.\<close>

record QueryResult =
  qr_success :: bool
  qr_rows :: "row list"
  qr_columns :: "string list"
  qr_row_count :: int
  qr_error_message :: "string option"
  qr_execution_time_ms :: rat

section \<open>The adapter over the external engine\<close>

text \<open>
  The \<open>LearnDB\<close> engine is outside these sources. It is a parameter: what
  \<open>handle_input\<close> answers (or the exception it raises), with the records the pipe then
  holds already as dictionaries, the elapsed time the adapter measures around the call,
  what \<open>nuke_dbfile\<close> leaves, and what opening a database file gives.
\<close>

datatype outcome = Raised string | Response bool "string option" "row list"

record 'db LearnDB =
  handle_input :: "'db \<Rightarrow> string \<Rightarrow> outcome \<times> 'db"
  elapsed_ms :: "'db \<Rightarrow> string \<Rightarrow> rat"
  nuke_dbfile :: "'db \<Rightarrow> 'db"
  connect :: "string \<Rightarrow> bool \<Rightarrow> 'db"

text \<open>The column names are the keys of the first non-empty row read from the pipe.\<close>

fun first_columns :: "row list \<Rightarrow> string list" where
  "first_columns [] = []"
| "first_columns (r # rs) = (if r \<noteq> [] then map fst r else first_columns rs)"

definition adapter_execute_query :: "'db LearnDB \<Rightarrow> 'db \<Rightarrow> string \<Rightarrow> QueryResult \<times> 'db" where
  "adapter_execute_query eng db sql =
     (let t = elapsed_ms eng db sql in
      case handle_input eng db sql of
        (Raised e, db') \<Rightarrow>
          (\<lparr>qr_success = False, qr_rows = [], qr_columns = [], qr_row_count = 0,
            qr_error_message = Some e, qr_execution_time_ms = t\<rparr>, db')
      | (Response ok err recs, db') \<Rightarrow>
          if \<not> ok then
            (\<lparr>qr_success = False, qr_rows = [], qr_columns = [], qr_row_count = 0,
              qr_error_message = err, qr_execution_time_ms = t\<rparr>, db')
          else
            (\<lparr>qr_success = True, qr_rows = recs, qr_columns = first_columns recs,
              qr_row_count = int (length recs), qr_error_message = None,
              qr_execution_time_ms = t\<rparr>, db'))"

definition adapter_reset :: "'db LearnDB \<Rightarrow> 'db \<Rightarrow> 'db" where
  "adapter_reset eng db = nuke_dbfile eng db"

section \<open>Session manager\<close>

record QueryHistoryItem =
  hi_sql :: string
  hi_timestamp :: string
  hi_success :: bool
  hi_execution_time_ms :: rat
  hi_row_count :: int
  hi_error_message :: "string option"

record 'db Session =
  session_id :: string
  db_path :: string
  created_at :: string
  last_activity_at :: string
  is_active :: bool
  current_mode :: string
  current_challenge_id :: "string option"
  current_tutorial_id :: "string option"
  query_history :: "QueryHistoryItem list"
  adapter :: "'db option"

text \<open>
  The manager's state: the configured limits and the dictionary \<open>_sessions\<close>. The lock
  and the session directories on disk are not modelled; every operation is taken as one
  atomic step, and the clock reading \<open>datetime.utcnow()\<close> of a call is its argument
  \<open>now\<close>.
\<close>

record 'db SessionManager =
  max_session_age_hours :: int
  max_history_items :: int
  sessions :: "string \<rightharpoonup> 'db Session"

text \<open>
  \<open>get_session\<close> returns the session only if it is in the dictionary and active; it
  stamps the activity time and attaches an adapter where there is none. The second
  component of the answer is that adapter (\<open>session._adapter\<close>, never \<open>None\<close> here).
\<close>

definition attached_db :: "'db LearnDB \<Rightarrow> 'db Session \<Rightarrow> 'db" where
  "attached_db eng s =
     (case adapter s of None \<Rightarrow> connect eng (db_path s) False | Some d \<Rightarrow> d)"

definition get_session ::
  "'db LearnDB \<Rightarrow> string \<Rightarrow> 'db SessionManager \<Rightarrow> string
     \<Rightarrow> ('db Session \<times> 'db) option \<times> 'db SessionManager" where
  "get_session eng now mgr sid =
     (case sessions mgr sid of
        None \<Rightarrow> (None, mgr)
      | Some s \<Rightarrow>
          if is_active s then
            (let db = attached_db eng s;
                 s' = s\<lparr>last_activity_at := now, adapter := Some db\<rparr>
             in (Some (s', db), mgr\<lparr>sessions := (sessions mgr)(sid \<mapsto> s')\<rparr>))
          else (None, mgr))"

definition not_found_message :: "string \<Rightarrow> string" where
  "not_found_message sid = ''Session '' @ [CHR 0x27] @ sid @ [CHR 0x27] @ '' not found''"

definition not_found_result :: "string \<Rightarrow> QueryResult" where
  "not_found_result sid =
     \<lparr>qr_success = False, qr_rows = [], qr_columns = [], qr_row_count = 0,
      qr_error_message = Some (not_found_message sid), qr_execution_time_ms = 0\<rparr>"

text \<open>The Python slice \<open>xs[start:]\<close>: a negative start counts from the end.\<close>

definition py_slice_from :: "int \<Rightarrow> 'a list \<Rightarrow> 'a list" where
  "py_slice_from start xs =
     (let n = int (length xs);
          s = (if start < 0 then max (n + start) 0 else min start n)
      in drop (nat s) xs)"

definition trim_history :: "int \<Rightarrow> 'a list \<Rightarrow> 'a list" where
  "trim_history cap h = (if int (length h) > cap then py_slice_from (- cap) h else h)"

definition execute_query ::
  "'db LearnDB \<Rightarrow> string \<Rightarrow> 'db SessionManager \<Rightarrow> string \<Rightarrow> string
     \<Rightarrow> QueryResult \<times> 'db SessionManager" where
  "execute_query eng now mgr sid sql =
     (case get_session eng now mgr sid of
        (None, mgr1) \<Rightarrow> (not_found_result sid, mgr1)
      | (Some (s, db), mgr1) \<Rightarrow>
          (let (result, db') = adapter_execute_query eng db sql;
               history_item =
                 \<lparr>hi_sql = sql, hi_timestamp = now, hi_success = qr_success result,
                  hi_execution_time_ms = qr_execution_time_ms result,
                  hi_row_count = qr_row_count result,
                  hi_error_message = qr_error_message result\<rparr>;
               s' = s\<lparr>adapter := Some db',
                      query_history :=
                        trim_history (max_history_items mgr1) (query_history s @ [history_item])\<rparr>
           in (result, mgr1\<lparr>sessions := (sessions mgr1)(sid \<mapsto> s')\<rparr>)))"

definition reset_session ::
  "'db LearnDB \<Rightarrow> string \<Rightarrow> 'db SessionManager \<Rightarrow> string \<Rightarrow> bool \<times> 'db SessionManager" where
  "reset_session eng now mgr sid =
     (case get_session eng now mgr sid of
        (None, mgr1) \<Rightarrow> (False, mgr1)
      | (Some (s, db), mgr1) \<Rightarrow>
          (let s' = s\<lparr>adapter := Some (adapter_reset eng db), query_history := []\<rparr>
           in (True, mgr1\<lparr>sessions := (sessions mgr1)(sid \<mapsto> s')\<rparr>)))"

text \<open>
  \<open>delete_session\<close> closes the adapter, marks the session inactive and removes the entry;
  errors of closing and of removing the directory are swallowed by the source.
\<close>

definition delete_session :: "'db SessionManager \<Rightarrow> string \<Rightarrow> bool \<times> 'db SessionManager" where
  "delete_session mgr sid =
     (case sessions mgr sid of
        None \<Rightarrow> (False, mgr)
      | Some s \<Rightarrow> (True, mgr\<lparr>sessions := (sessions mgr)(sid := None)\<rparr>))"

definition get_query_history ::
  "'db LearnDB \<Rightarrow> string \<Rightarrow> 'db SessionManager \<Rightarrow> string
     \<Rightarrow> QueryHistoryItem list \<times> 'db SessionManager" where
  "get_query_history eng now mgr sid =
     (case get_session eng now mgr sid of
        (None, mgr1) \<Rightarrow> ([], mgr1)
      | (Some (s, db), mgr1) \<Rightarrow> (query_history s, mgr1))"

text \<open>
  \<open>create_session\<close>; the fresh identifier \<open>uuid.uuid4()\<close> is the argument \<open>sid\<close> and the
  database file lies in the session's own directory under the default sessions directory.
\<close>

definition create_session ::
  "'db LearnDB \<Rightarrow> string \<Rightarrow> 'db SessionManager \<Rightarrow> string
     \<Rightarrow> 'db Session \<times> 'db SessionManager" where
  "create_session eng now mgr sid =
     (let path = ''/tmp/learndb_sessions/'' @ sid @ ''/db.file'';
          s = \<lparr>session_id = sid, db_path = path, created_at = now, last_activity_at = now,
               is_active = True, current_mode = ''sandbox'', current_challenge_id = None,
               current_tutorial_id = None, query_history = [],
               adapter = Some (connect eng path True)\<rparr>
      in (s, mgr\<lparr>sessions := (sessions mgr)(sid \<mapsto> s)\<rparr>))"

definition new_manager :: "int \<Rightarrow> int \<Rightarrow> 'db SessionManager" where
  "new_manager age cap =
     \<lparr>max_session_age_hours = age, max_history_items = cap, sessions = Map.empty\<rparr>"

section \<open>Challenge model\<close>

datatype Difficulty = BEGINNER | INTERMEDIATE | ADVANCED | EXPERT

datatype ChallengeCategory = SELECT_BASICS | FILTERING | JOINS | AGGREGATION | DDL | DML

datatype ValidationType = EXACT_MATCH | ROW_COUNT | CONTAINS_ROWS | COLUMN_CHECK

text \<open>
  \<open>expected_value\<close> has type \<open>Any\<close>: an integer for a row count, a list of rows or a list
  of column names for the other rules. A list may hold rows or strings; using an element
  as the wrong kind raises, as in Python.
\<close>

datatype elem = ERow row | EStr string

datatype expected = ExpInt int | ExpList "elem list"

record ValidationRule =
  rule_type :: ValidationType
  expected_value :: expected
  order_matters :: bool
  case_sensitive :: bool

record Challenge =
  ch_id :: string
  ch_title :: string
  ch_description :: string
  ch_category :: ChallengeCategory
  ch_difficulty :: Difficulty
  xp_reward :: int
  setup_sql :: "string list"
  validation_rules :: "ValidationRule list"
  expected_query :: "string option"
  hints :: "string list"
  hint_penalty_xp :: int
  estimated_time_minutes :: int
  prerequisites :: "string list"
  tags :: "string list"
  concept_explanation :: "string option"

text \<open>
  The feedback of a check is one of a fixed set of messages filled in with data; the
  constructor names the message and carries the data, the rendering to text is left out
  (Python prints a set in an order that depends on hashing).
  \<^item> \<open>QueryError e\<close>: \<open>Query error: {e}\<close>
  \<^item> \<open>AllPassed\<close>: \<open>All validations passed! Great job!\<close>
  \<^item> \<open>ExpectedRowsGot e a\<close>: \<open>Expected {e} rows, got {a}\<close>
  \<^item> \<open>RowCountMatches\<close>: \<open>Row count matches\<close>
  \<^item> \<open>RowMismatch i\<close>: \<open>Row {i} doesn't match expected output\<close>
  \<^item> \<open>MissingExpectedRow r\<close>: \<open>Missing expected row: {r}\<close>
  \<^item> \<open>OutputMatches\<close>: \<open>Output matches expected\<close>
  \<^item> \<open>MissingRequiredRow\<close>: \<open>Missing required row in output\<close>
  \<^item> \<open>ContainsAll\<close>: \<open>Contains all required rows\<close>
  \<^item> \<open>ColumnMismatch missing extra\<close>: \<open>Column mismatch.\<close>, then the missing and the
    unexpected names where there are any
  \<^item> \<open>ColumnsMatch\<close>: \<open>Columns match\<close>
\<close>

datatype feedback =
    QueryError "string option"
  | AllPassed
  | ExpectedRowsGot expected int
  | RowCountMatches
  | RowMismatch nat
  | MissingExpectedRow elem
  | OutputMatches
  | MissingRequiredRow
  | ContainsAll
  | ColumnMismatch "string set" "string set"
  | ColumnsMatch

record ChallengeSubmission =
  sub_challenge_id :: string
  sub_session_id :: string
  submitted_sql :: string
  submitted_at :: string
  passed :: bool
  sub_execution_time_ms :: rat
  sub_hints_used :: int
  xp_earned :: int
  sub_feedback :: feedback
  actual_output :: "row list option"

record LevelDefinition =
  level :: int
  level_name :: string
  xp_required :: int

definition LEVELS :: "LevelDefinition list" where
  "LEVELS =
     [\<lparr>level = 1, level_name = ''SQL Novice'', xp_required = 0\<rparr>,
      \<lparr>level = 2, level_name = ''Query Apprentice'', xp_required = 100\<rparr>,
      \<lparr>level = 3, level_name = ''Data Explorer'', xp_required = 300\<rparr>,
      \<lparr>level = 4, level_name = ''Table Master'', xp_required = 600\<rparr>,
      \<lparr>level = 5, level_name = ''Join Journeyman'', xp_required = 1000\<rparr>,
      \<lparr>level = 6, level_name = ''Aggregate Adept'', xp_required = 1500\<rparr>,
      \<lparr>level = 7, level_name = ''Schema Sage'', xp_required = 2100\<rparr>,
      \<lparr>level = 8, level_name = ''Index Innovator'', xp_required = 2800\<rparr>,
      \<lparr>level = 9, level_name = ''Database Architect'', xp_required = 3600\<rparr>,
      \<lparr>level = 10, level_name = ''SQL Grandmaster'', xp_required = 5000\<rparr>]"

datatype criteria = CInt int | CStr string

record Badge =
  badge_id :: string
  badge_name :: string
  badge_description :: string
  icon :: string
  criteria_type :: string
  criteria_value :: criteria
  xp_bonus :: int

definition mk_badge :: "string \<Rightarrow> string \<Rightarrow> string \<Rightarrow> string \<Rightarrow> string \<Rightarrow> criteria \<Rightarrow> Badge" where
  "mk_badge i n d ic ct cv =
     \<lparr>badge_id = i, badge_name = n, badge_description = d, icon = ic, criteria_type = ct,
      criteria_value = cv, xp_bonus = 0\<rparr>"

definition BADGES :: "Badge list" where
  "BADGES =
     [mk_badge ''first_query'' ''First Steps'' ''Execute your first SQL query'' ''rocket''
        ''query_count'' (CInt 1),
      mk_badge ''first_challenge'' ''Challenge Accepted'' ''Complete your first challenge''
        ''trophy'' ''challenge_count'' (CInt 1),
      mk_badge ''streak_3'' ''Consistent'' ''Maintain a 3-day streak'' ''fire'' ''streak'' (CInt 3),
      mk_badge ''streak_7'' ''Dedicated'' ''Maintain a 7-day streak'' ''fire'' ''streak'' (CInt 7),
      mk_badge ''select_master'' ''SELECT Master'' ''Complete all SELECT challenges'' ''star''
        ''category_complete'' (CStr ''select_basics''),
      mk_badge ''join_expert'' ''Join Expert'' ''Complete all JOIN challenges'' ''link''
        ''category_complete'' (CStr ''joins''),
      mk_badge ''speed_demon'' ''Speed Demon'' ''Complete a challenge in under 30 seconds''
        ''bolt'' ''speed'' (CInt 30),
      mk_badge ''ten_challenges'' ''Getting Serious'' ''Complete 10 challenges'' ''award''
        ''challenge_count'' (CInt 10)]"

record UserProgress =
  user_id :: string
  total_xp :: int
  current_level :: int
  current_streak :: int
  longest_streak :: int
  last_activity_date :: "string option"
  completed_challenges :: "string list"
  earned_badges :: "string list"
  total_queries_executed :: int
  up_hints_used :: int

definition new_progress :: "string \<Rightarrow> UserProgress" where
  "new_progress uid =
     \<lparr>user_id = uid, total_xp = 0, current_level = 1, current_streak = 0, longest_streak = 0,
      last_activity_date = None, completed_challenges = [], earned_badges = [],
      total_queries_executed = 0, up_hints_used = 0\<rparr>"

section \<open>Challenge engine\<close>

subsection \<open>Row equality\<close>

text \<open>
  \<open>{k.lower(): v for k, v in row.items()}\<close>: a later key that folds to the same name
  overwrites the value and keeps the first position.
\<close>

definition norm_row :: "row \<Rightarrow> row" where
  "norm_row r = fold (\<lambda>(k, v) m. AList.update (lower k) v m) r []"

text \<open>
  The tolerance of the float comparison: the double that the literal \<open>0.0001\<close> denotes,
  which is \<open>7378697629483821 / 2 ^ 66\<close>.
\<close>

definition tolerance :: rat where
  "tolerance = 7378697629483821 / 73786976294838206464"

text \<open>
  One turn of the loop of \<open>_rows_equal\<close>: false where the source returns \<open>False\<close>.
\<close>

definition val_match :: "bool \<Rightarrow> pyval \<Rightarrow> pyval \<Rightarrow> bool" where
  "val_match cs exp_val act_val =
     (let (e, a) =
            (case (exp_val, act_val) of
               (VStr s, VStr t) \<Rightarrow>
                 if \<not> cs then (VStr (lower s), VStr (lower t)) else (exp_val, act_val)
             | _ \<Rightarrow> (exp_val, act_val))
      in case (e, a) of
           (VFloat x, VFloat y) \<Rightarrow> \<not> (\<bar>x - y\<bar> > tolerance)
         | _ \<Rightarrow> py_eq e a)"

fun rows_loop :: "bool \<Rightarrow> row \<Rightarrow> row \<Rightarrow> bool" where
  "rows_loop cs [] actual_norm = True"
| "rows_loop cs ((key, exp_val) # rest) actual_norm =
     (let act_val = (case map_of actual_norm key of None \<Rightarrow> VNone | Some v \<Rightarrow> v)
      in if val_match cs exp_val act_val then rows_loop cs rest actual_norm else False)"

definition rows_equal :: "row \<Rightarrow> row \<Rightarrow> bool \<Rightarrow> bool" where
  "rows_equal expected actual cs =
     (let expected_norm = norm_row expected; actual_norm = norm_row actual
      in if set (map fst expected_norm) \<noteq> set (map fst actual_norm) then False
         else rows_loop cs expected_norm actual_norm)"

text \<open>An element of \<open>expected_value\<close> used as a row: a string has no \<open>items\<close>.\<close>

fun rows_equal_elem :: "elem \<Rightarrow> row \<Rightarrow> bool \<Rightarrow> pyerror + bool" where
  "rows_equal_elem (ERow r) actual cs = Inr (rows_equal r actual cs)"
| "rows_equal_elem (EStr s) actual cs = Inl AttributeError"

subsection \<open>Checking one rule\<close>

text \<open>The positional loop of an exact match; \<open>None\<close> when it runs to its end.\<close>

fun exact_ordered :: "bool \<Rightarrow> nat \<Rightarrow> elem list \<Rightarrow> row list \<Rightarrow> pyerror + feedback option" where
  "exact_ordered cs i (e # es) (a # as) =
     (case rows_equal_elem e a cs of
        Inl err \<Rightarrow> Inl err
      | Inr eq \<Rightarrow> if \<not> eq then Inr (Some (RowMismatch (i + 1))) else exact_ordered cs (i + 1) es as)"
| "exact_ordered cs i es as = Inr None"

text \<open>The inner search loop: is there an actual row equal to the expected one.\<close>

fun find_row :: "bool \<Rightarrow> elem \<Rightarrow> row list \<Rightarrow> pyerror + bool" where
  "find_row cs e [] = Inr False"
| "find_row cs e (a # as) =
     (case rows_equal_elem e a cs of
        Inl err \<Rightarrow> Inl err
      | Inr eq \<Rightarrow> if eq then Inr True else find_row cs e as)"

text \<open>The outer loop: the first expected row that is not found, if any.\<close>

fun first_missing :: "bool \<Rightarrow> elem list \<Rightarrow> row list \<Rightarrow> pyerror + elem option" where
  "first_missing cs [] actual_rows = Inr None"
| "first_missing cs (e # es) actual_rows =
     (case find_row cs e actual_rows of
        Inl err \<Rightarrow> Inl err
      | Inr found \<Rightarrow> if \<not> found then Inr (Some e) else first_missing cs es actual_rows)"

text \<open>\<open>set(c.lower() for c in xs)\<close>: a row has no \<open>lower\<close>.\<close>

fun lower_all :: "elem list \<Rightarrow> pyerror + string set" where
  "lower_all [] = Inr {}"
| "lower_all (EStr c # xs) =
     (case lower_all xs of Inl err \<Rightarrow> Inl err | Inr S \<Rightarrow> Inr (insert (lower c) S))"
| "lower_all (ERow r # xs) = Inl AttributeError"

text \<open>
  \<open>_check_rule\<close>. The four members of \<open>ValidationType\<close> are all handled, so the final
  \<open>Unknown rule type (skipped)\<close> of the source is never reached.
\<close>

fun check_rule :: "QueryResult \<Rightarrow> ValidationRule \<Rightarrow> pyerror + (bool \<times> feedback)" where
  "check_rule result rule =
     (case rule_type rule of
        ROW_COUNT \<Rightarrow>
          (let expected = expected_value rule; actual = qr_row_count result
           in if expected \<noteq> ExpInt actual then Inr (False, ExpectedRowsGot expected actual)
              else Inr (True, RowCountMatches))
      | EXACT_MATCH \<Rightarrow>
          (case expected_value rule of
             ExpInt n \<Rightarrow> Inl TypeError
           | ExpList expected_rows \<Rightarrow>
               (let actual_rows = qr_rows result in
                if length actual_rows \<noteq> length expected_rows then
                  Inr (False, ExpectedRowsGot (ExpInt (int (length expected_rows)))
                                (int (length actual_rows)))
                else if order_matters rule then
                  (case exact_ordered (case_sensitive rule) 0 expected_rows actual_rows of
                     Inl err \<Rightarrow> Inl err
                   | Inr (Some fb) \<Rightarrow> Inr (False, fb)
                   | Inr None \<Rightarrow> Inr (True, OutputMatches))
                else
                  (case first_missing (case_sensitive rule) expected_rows actual_rows of
                     Inl err \<Rightarrow> Inl err
                   | Inr (Some e) \<Rightarrow> Inr (False, MissingExpectedRow e)
                   | Inr None \<Rightarrow> Inr (True, OutputMatches))))
      | CONTAINS_ROWS \<Rightarrow>
          (case expected_value rule of
             ExpInt n \<Rightarrow> Inl TypeError
           | ExpList expected_rows \<Rightarrow>
               (case first_missing (case_sensitive rule) expected_rows (qr_rows result) of
                  Inl err \<Rightarrow> Inl err
                | Inr (Some e) \<Rightarrow> Inr (False, MissingRequiredRow)
                | Inr None \<Rightarrow> Inr (True, ContainsAll)))
      | COLUMN_CHECK \<Rightarrow>
          (case expected_value rule of
             ExpInt n \<Rightarrow> Inl TypeError
           | ExpList cols \<Rightarrow>
               (case lower_all cols of
                  Inl err \<Rightarrow> Inl err
                | Inr expected_columns \<Rightarrow>
                    (let actual_columns = lower ` set (qr_columns result) in
                     if expected_columns \<noteq> actual_columns then
                       Inr (False, ColumnMismatch (expected_columns - actual_columns)
                                     (actual_columns - expected_columns))
                     else Inr (True, ColumnsMatch)))))"

subsection \<open>Checking the rules of a challenge\<close>

fun validate_against_rules ::
  "QueryResult \<Rightarrow> ValidationRule list \<Rightarrow> pyerror + (bool \<times> feedback)" where
  "validate_against_rules result [] = Inr (True, AllPassed)"
| "validate_against_rules result (rule # rules) =
     (case check_rule result rule of
        Inl err \<Rightarrow> Inl err
      | Inr (ok, fb) \<Rightarrow> if \<not> ok then Inr (False, fb) else validate_against_rules result rules)"

subsection \<open>The engine's state and its operations\<close>

record 'db ChallengeEngine =
  session_manager :: "'db SessionManager"
  user_progress :: "string \<rightharpoonup> UserProgress"

fun setup_loop ::
  "'db LearnDB \<Rightarrow> string \<Rightarrow> 'db SessionManager \<Rightarrow> string \<Rightarrow> string list
     \<Rightarrow> (bool \<times> string) \<times> 'db SessionManager" where
  "setup_loop eng now mgr sid [] = ((True, ''Challenge setup complete''), mgr)"
| "setup_loop eng now mgr sid (sql # sqls) =
     (let (result, mgr1) = execute_query eng now mgr sid sql
      in if \<not> qr_success result then
           ((False, ''Setup failed: '' @
               (case qr_error_message result of None \<Rightarrow> ''None'' | Some e \<Rightarrow> e)), mgr1)
         else setup_loop eng now mgr1 sid sqls)"

definition setup_challenge ::
  "'db LearnDB \<Rightarrow> string \<Rightarrow> 'db ChallengeEngine \<Rightarrow> string \<Rightarrow> Challenge
     \<Rightarrow> (bool \<times> string) \<times> 'db ChallengeEngine" where
  "setup_challenge eng now ce sid challenge =
     (let (r, mgr1) = reset_session eng now (session_manager ce) sid;
          (res, mgr2) = setup_loop eng now mgr1 sid (setup_sql challenge)
      in (res, ce\<lparr>session_manager := mgr2\<rparr>))"

text \<open>
  \<open>validate_submission\<close>. An exception of a rule check leaves the method after the query
  has run, so the state is returned beside the result in every case.
\<close>

definition validate_submission ::
  "'db LearnDB \<Rightarrow> string \<Rightarrow> 'db ChallengeEngine \<Rightarrow> string \<Rightarrow> Challenge \<Rightarrow> string \<Rightarrow> int
     \<Rightarrow> (pyerror + ChallengeSubmission) \<times> 'db ChallengeEngine" where
  "validate_submission eng now ce sid challenge sql hints_used =
     (let (result, mgr1) = execute_query eng now (session_manager ce) sid sql;
          ce1 = ce\<lparr>session_manager := mgr1\<rparr>
      in if \<not> qr_success result then
           (Inr \<lparr>sub_challenge_id = ch_id challenge, sub_session_id = sid,
                 submitted_sql = sql, submitted_at = now, passed = False,
                 sub_execution_time_ms = qr_execution_time_ms result,
                 sub_hints_used = hints_used, xp_earned = 0,
                 sub_feedback = QueryError (qr_error_message result),
                 actual_output = None\<rparr>, ce1)
         else
           (case validate_against_rules result (validation_rules challenge) of
              Inl err \<Rightarrow> (Inl err, ce1)
            | Inr (ok, fb) \<Rightarrow>
                (let xp = (if ok then max (xp_reward challenge - hints_used * hint_penalty_xp challenge)
                                         (xp_reward challenge div 4)
                           else 0)
                 in (Inr \<lparr>sub_challenge_id = ch_id challenge, sub_session_id = sid,
                          submitted_sql = sql, submitted_at = now, passed = ok,
                          sub_execution_time_ms = qr_execution_time_ms result,
                          sub_hints_used = hints_used, xp_earned = xp,
                          sub_feedback = fb,
                          actual_output = Some (qr_rows result)\<rparr>, ce1))))"

text \<open>
  The response the route \<open>submit_challenge\<close> of \<open>api/routes/challenges.py\<close> builds from a
  submission.
\<close>

record SubmitResponse =
  resp_success :: bool
  resp_passed :: bool
  resp_feedback :: feedback
  resp_xp_earned :: int
  resp_execution_time_ms :: rat
  resp_actual_output :: "row list option"

definition submit_response :: "ChallengeSubmission \<Rightarrow> SubmitResponse" where
  "submit_response submission =
     \<lparr>resp_success = passed submission, resp_passed = passed submission,
      resp_feedback = sub_feedback submission, resp_xp_earned = xp_earned submission,
      resp_execution_time_ms = sub_execution_time_ms submission,
      resp_actual_output = (if \<not> passed submission then actual_output submission else None)\<rparr>"

subsection \<open>Progress\<close>

definition get_user_progress ::
  "'db ChallengeEngine \<Rightarrow> string \<Rightarrow> UserProgress \<times> 'db ChallengeEngine" where
  "get_user_progress ce uid =
     (case user_progress ce uid of
        None \<Rightarrow> (new_progress uid, ce\<lparr>user_progress := (user_progress ce)(uid \<mapsto> new_progress uid)\<rparr>)
      | Some p \<Rightarrow> (p, ce))"

definition calculate_level :: "int \<Rightarrow> int" where
  "calculate_level xp =
     fold (\<lambda>level_def lv. if xp \<ge> xp_required level_def then level level_def else lv) LEVELS 1"

text \<open>\<open>n >= badge.criteria_value\<close>: an integer does not compare with a string.\<close>

fun py_ge :: "int \<Rightarrow> criteria \<Rightarrow> pyerror + bool" where
  "py_ge n (CInt k) = Inr (n \<ge> k)"
| "py_ge n (CStr s) = Inl TypeError"

text \<open>The value of \<open>earned\<close> for one badge, before the award.\<close>

definition badge_earned :: "UserProgress \<Rightarrow> Badge \<Rightarrow> pyerror + bool" where
  "badge_earned progress badge =
     (if criteria_type badge = ''challenge_count'' then
        py_ge (int (length (completed_challenges progress))) (criteria_value badge)
      else if criteria_type badge = ''streak'' then
        py_ge (current_streak progress) (criteria_value badge)
      else if criteria_type badge = ''query_count'' then
        py_ge (total_queries_executed progress) (criteria_value badge)
      else Inr False)"

fun check_badges_loop :: "Badge list \<Rightarrow> UserProgress \<Rightarrow> pyerror + UserProgress" where
  "check_badges_loop [] progress = Inr progress"
| "check_badges_loop (badge # badges) progress =
     (if badge_id badge \<in> set (earned_badges progress) then check_badges_loop badges progress
      else case badge_earned progress badge of
             Inl err \<Rightarrow> Inl err
           | Inr earned \<Rightarrow>
               if earned then
                 check_badges_loop badges
                   (progress\<lparr>earned_badges := earned_badges progress @ [badge_id badge],
                             total_xp := total_xp progress + xp_bonus badge\<rparr>)
               else check_badges_loop badges progress)"

definition check_badges :: "UserProgress \<Rightarrow> pyerror + UserProgress" where
  "check_badges progress = check_badges_loop BADGES progress"

text \<open>
  \<open>update_progress\<close>; \<open>today\<close> is the date \<open>datetime.utcnow().date().isoformat()\<close>. A
  stored date counts as present when it is not the empty string (Python truthiness).
\<close>

definition update_streak :: "string \<Rightarrow> UserProgress \<Rightarrow> UserProgress" where
  "update_streak today progress =
     (case last_activity_date progress of
        None \<Rightarrow> progress\<lparr>current_streak := 1\<rparr>
      | Some last_date \<Rightarrow>
          if last_date = [] then progress\<lparr>current_streak := 1\<rparr>
          else if last_date \<noteq> today then progress\<lparr>current_streak := current_streak progress + 1\<rparr>
          else progress)"

definition record_pass :: "string \<Rightarrow> ChallengeSubmission \<Rightarrow> UserProgress \<Rightarrow> UserProgress" where
  "record_pass today submission progress =
     (let p1 = progress\<lparr>completed_challenges :=
                          completed_challenges progress @ [sub_challenge_id submission]\<rparr>;
          p2 = p1\<lparr>total_xp := total_xp p1 + xp_earned submission\<rparr>;
          p3 = p2\<lparr>current_level := calculate_level (total_xp p2)\<rparr>;
          p4 = update_streak today p3;
          p5 = p4\<lparr>last_activity_date := Some today\<rparr>
      in p5\<lparr>longest_streak := max (longest_streak p5) (current_streak p5)\<rparr>)"

definition update_progress ::
  "string \<Rightarrow> 'db ChallengeEngine \<Rightarrow> string \<Rightarrow> ChallengeSubmission
     \<Rightarrow> pyerror + 'db ChallengeEngine" where
  "update_progress today ce uid submission =
     (let (progress, ce1) = get_user_progress ce uid;
          store = (\<lambda>p. ce1\<lparr>user_progress :=
                     (user_progress ce1)(uid \<mapsto> p\<lparr>up_hints_used :=
                        up_hints_used p + sub_hints_used submission\<rparr>)\<rparr>)
      in if passed submission
            \<and> sub_challenge_id submission \<notin> set (completed_challenges progress) then
           (case check_badges (record_pass today submission progress) of
              Inl err \<Rightarrow> Inl err
            | Inr p \<Rightarrow> Inr (store p))
         else Inr (store progress))"

section \<open>The catalogue and the badge descriptions\<close>

text \<open>
  The identifiers and categories of the challenges of \<open>content/challenges\<close>, in the order
  the registry loads them.
\<close>

definition catalogue :: "(string \<times> ChallengeCategory) list" where
  "catalogue =
     [(''select_001'', SELECT_BASICS), (''select_002'', SELECT_BASICS),
      (''select_003'', SELECT_BASICS), (''select_004'', FILTERING), (''select_005'', FILTERING),
      (''join_001'', JOINS), (''join_002'', JOINS), (''join_003'', JOINS), (''join_004'', JOINS),
      (''agg_001'', AGGREGATION), (''agg_002'', AGGREGATION), (''agg_003'', AGGREGATION),
      (''agg_004'', AGGREGATION), (''agg_005'', AGGREGATION)]"

text \<open>The values of the enumeration \<open>ChallengeCategory\<close>.\<close>

fun category_value :: "ChallengeCategory \<Rightarrow> string" where
  "category_value SELECT_BASICS = ''select_basics''"
| "category_value FILTERING = ''filtering''"
| "category_value JOINS = ''joins''"
| "category_value AGGREGATION = ''aggregation''"
| "category_value DDL = ''ddl''"
| "category_value DML = ''dml''"

text \<open>
  The trigger of a category badge as the specification and the badge's description word
  it (complete all challenges of the category); the engine has no such check, and this
  predicate is only compared with what the engine awards.
\<close>

definition category_complete_spec :: "string \<Rightarrow> UserProgress \<Rightarrow> bool" where
  "category_complete_spec cat progress =
     list_all (\<lambda>cid. cid \<in> set (completed_challenges progress))
       (map fst (filter (\<lambda>(cid, c). category_value c = cat) catalogue))"

text \<open>
  A badge whose check cannot raise: its threshold is an integer, or its criteria type
  is none of the three that are compared with a number.
\<close>

definition badge_well_typed :: "Badge \<Rightarrow> bool" where
  "badge_well_typed badge =
     (case criteria_value badge of
        CInt k \<Rightarrow> True
      | CStr s \<Rightarrow> criteria_type badge \<noteq> ''challenge_count'' \<and> criteria_type badge \<noteq> ''streak''
                 \<and> criteria_type badge \<noteq> ''query_count'')"

text \<open>
  The trigger of a threshold badge as the specification words it, written without
  reference to the engine's check: the badge names a challenge count, a streak length or
  a query count, and the progress has reached that number.
\<close>

definition threshold_holds :: "UserProgress \<Rightarrow> Badge \<Rightarrow> bool" where
  "threshold_holds progress badge =
     (case criteria_value badge of
        CInt k \<Rightarrow>
          (criteria_type badge = ''challenge_count''
             \<and> k \<le> int (length (completed_challenges progress)))
          \<or> (criteria_type badge = ''streak'' \<and> k \<le> current_streak progress)
          \<or> (criteria_type badge = ''query_count'' \<and> k \<le> total_queries_executed progress)
      | CStr s \<Rightarrow> False)"

definition newly_earned :: "UserProgress \<Rightarrow> UserProgress \<Rightarrow> Badge list" where
  "newly_earned before after =
     filter (\<lambda>b. badge_id b \<notin> set (earned_badges before) \<and> threshold_holds after b) BADGES"

text \<open>The progress of a user in the state an update returns.\<close>

definition progress_of :: "pyerror + 'db ChallengeEngine \<Rightarrow> string \<Rightarrow> UserProgress option" where
  "progress_of r uid = (case r of Inl err \<Rightarrow> None | Inr ce \<Rightarrow> user_progress ce uid)"

section \<open>A sample engine and sample inputs\<close>

text \<open>
  A small engine for the closed instances below: the database is one table of rows;
  \<open>select\<close> returns its rows, \<open>insert\<close> appends a row with the next \<open>id\<close>, \<open>crash\<close> raises,
  and any other statement is rejected.
\<close>

definition demo_engine :: "(row list) LearnDB" where
  "demo_engine =
     \<lparr>handle_input = (\<lambda>db sql.
         if sql = ''select'' then (Response True None db, db)
         else if sql = ''insert'' then
           (Response True None [], db @ [[(''id'', VInt (int (length db) + 1))]])
         else if sql = ''crash'' then (Raised ''boom'', db)
         else (Response False (Some ''syntax error'') [], db)),
      elapsed_ms = (\<lambda>db sql. 1),
      nuke_dbfile = (\<lambda>db. []),
      connect = (\<lambda>path nuke. [])\<rparr>"

definition demo_manager :: "int \<Rightarrow> (row list) SessionManager" where
  "demo_manager cap = snd (create_session demo_engine ''t0'' (new_manager 24 cap) ''s1'')"

definition demo_rule :: "ValidationType \<Rightarrow> expected \<Rightarrow> bool \<Rightarrow> ValidationRule" where
  "demo_rule t e om =
     \<lparr>rule_type = t, expected_value = e, order_matters = om, case_sensitive = False\<rparr>"

definition demo_challenge :: "ValidationRule list \<Rightarrow> Challenge" where
  "demo_challenge rules =
     \<lparr>ch_id = ''select_003'', ch_title = ''Two rows'', ch_description = ''Select both rows'',
      ch_category = SELECT_BASICS, ch_difficulty = BEGINNER, xp_reward = 100,
      setup_sql = [''insert'', ''insert''], validation_rules = rules,
      expected_query = Some ''select'', hints = [''Use select''], hint_penalty_xp = 5,
      estimated_time_minutes = 5, prerequisites = [], tags = [], concept_explanation = None\<rparr>"

definition demo_rules :: "ValidationRule list" where
  "demo_rules =
     [demo_rule ROW_COUNT (ExpInt 2) False,
      demo_rule COLUMN_CHECK (ExpList [EStr ''ID'']) False,
      demo_rule EXACT_MATCH (ExpList [ERow [(''ID'', VInt 1)], ERow [(''ID'', VInt 2)]]) True]"

definition demo_engine_state :: "(row list) ChallengeEngine" where
  "demo_engine_state =
     snd (setup_challenge demo_engine ''t1''
            \<lparr>session_manager = demo_manager 100, user_progress = Map.empty\<rparr> ''s1''
            (demo_challenge demo_rules))"

definition demo_submission :: "bool \<Rightarrow> string \<Rightarrow> int \<Rightarrow> int \<Rightarrow> ChallengeSubmission" where
  "demo_submission ok cid h xp =
     \<lparr>sub_challenge_id = cid, sub_session_id = ''s1'', submitted_sql = ''select'',
      submitted_at = ''t2'', passed = ok, sub_execution_time_ms = 1, sub_hints_used = h,
      xp_earned = xp, sub_feedback = (if ok then AllPassed else MissingRequiredRow),
      actual_output = None\<rparr>"

definition demo_progress :: "string list \<Rightarrow> UserProgress" where
  "demo_progress done =
     (new_progress ''u1'')\<lparr>total_xp := 40, current_level := 1, current_streak := 2,
        longest_streak := 2, last_activity_date := Some ''2024-01-01'',
        completed_challenges := done, earned_badges := [''first_challenge'']\<rparr>"

definition demo_progress_state :: "string list \<Rightarrow> (row list) ChallengeEngine" where
  "demo_progress_state done = demo_engine_state\<lparr>user_progress := [''u1'' \<mapsto> demo_progress done]\<rparr>"

text \<open>
  Rules of which the first passes on two rows, the second fails, and the third would
  raise if it were checked.
\<close>

definition demo_rules_failing :: "ValidationRule list" where
  "demo_rules_failing =
     [demo_rule ROW_COUNT (ExpInt 2) False,
      demo_rule ROW_COUNT (ExpInt 3) False,
      demo_rule EXACT_MATCH (ExpInt 5) False]"

section \<open>Facts about the operations and the sample inputs\<close>

lemma get_session_absent:
  "sessions mgr sid = None \<Longrightarrow> get_session eng now mgr sid = (None, mgr)"
  by (simp add: get_session_def)

lemma get_session_present:
  "sessions mgr sid = Some s \<Longrightarrow> is_active s \<Longrightarrow>
   get_session eng now mgr sid =
     (Some (s\<lparr>last_activity_at := now, adapter := Some (attached_db eng s)\<rparr>, attached_db eng s),
      mgr\<lparr>sessions := (sessions mgr)(sid \<mapsto>
              s\<lparr>last_activity_at := now, adapter := Some (attached_db eng s)\<rparr>)\<rparr>)"
  by (simp add: get_session_def Let_def)

lemma delete_session_absent:
  "sessions mgr sid = None \<Longrightarrow> delete_session mgr sid = (False, mgr)"
  by (simp add: delete_session_def)

lemma sessions_after_delete:
  "sessions (snd (delete_session mgr sid)) sid = None"
  by (simp add: delete_session_def split: option.splits)

lemma demo_manager_session:
  "sessions (demo_manager cap) ''s1'' =
     Some \<lparr>session_id = ''s1'', db_path = ''/tmp/learndb_sessions/s1/db.file'',
           created_at = ''t0'', last_activity_at = ''t0'', is_active = True,
           current_mode = ''sandbox'', current_challenge_id = None,
           current_tutorial_id = None, query_history = [], adapter = Some []\<rparr>"
  by (simp add: demo_manager_def create_session_def new_manager_def demo_engine_def Let_def)

lemma demo_manager_cap: "max_history_items (demo_manager cap) = cap"
  by (simp add: demo_manager_def create_session_def new_manager_def Let_def)

lemma demo_state_session:
  "sessions (session_manager demo_engine_state) ''s1'' =
     Some \<lparr>session_id = ''s1'', db_path = ''/tmp/learndb_sessions/s1/db.file'',
           created_at = ''t0'', last_activity_at = ''t1'', is_active = True,
           current_mode = ''sandbox'', current_challenge_id = None,
           current_tutorial_id = None,
           query_history =
             [\<lparr>hi_sql = ''insert'', hi_timestamp = ''t1'', hi_success = True,
               hi_execution_time_ms = 1, hi_row_count = 0, hi_error_message = None\<rparr>,
              \<lparr>hi_sql = ''insert'', hi_timestamp = ''t1'', hi_success = True,
               hi_execution_time_ms = 1, hi_row_count = 0, hi_error_message = None\<rparr>],
           adapter = Some [[(''id'', VInt 1)], [(''id'', VInt 2)]]\<rparr>"
  by (simp add: demo_engine_state_def setup_challenge_def demo_challenge_def reset_session_def
        execute_query_def get_session_def demo_manager_session demo_manager_cap attached_db_def
        adapter_reset_def Let_def adapter_execute_query_def demo_engine_def trim_history_def)

lemma demo_state_cap: "max_history_items (session_manager demo_engine_state) = 100"
  by (simp add: demo_engine_state_def setup_challenge_def demo_challenge_def reset_session_def
        execute_query_def get_session_def demo_manager_session demo_manager_cap attached_db_def
        adapter_reset_def Let_def adapter_execute_query_def demo_engine_def trim_history_def)

lemma demo_state_progress: "user_progress demo_engine_state = Map.empty"
  by (simp add: demo_engine_state_def setup_challenge_def split: prod.splits)

lemma demo_select:
  "fst (execute_query demo_engine now (session_manager demo_engine_state) ''s1'' ''select'') =
     \<lparr>qr_success = True, qr_rows = [[(''id'', VInt 1)], [(''id'', VInt 2)]],
      qr_columns = [''id''], qr_row_count = 2, qr_error_message = None,
      qr_execution_time_ms = 1\<rparr>"
  by (simp add: execute_query_def get_session_def demo_state_session attached_db_def Let_def
        adapter_execute_query_def demo_engine_def)

lemma validate_submission_failed_query:
  assumes "\<not> qr_success (fst (execute_query eng now (session_manager ce) sid sql))"
  shows "\<exists>sub. fst (validate_submission eng now ce sid ch sql h) = Inr sub
           \<and> \<not> passed sub \<and> xp_earned sub = 0 \<and> actual_output sub = None
           \<and> sub_feedback sub =
               QueryError (qr_error_message (fst (execute_query eng now (session_manager ce) sid sql)))"
  using assms by (simp add: validate_submission_def Let_def case_prod_unfold)

lemma validate_submission_executed:
  assumes "qr_success (fst (execute_query eng now (session_manager ce) sid sql))"
      and "validate_against_rules (fst (execute_query eng now (session_manager ce) sid sql))
             (validation_rules ch) = Inr (ok, fb)"
  shows "\<exists>sub. fst (validate_submission eng now ce sid ch sql h) = Inr sub
           \<and> passed sub = ok \<and> sub_feedback sub = fb
           \<and> xp_earned sub = (if ok then max (xp_reward ch - h * hint_penalty_xp ch)
                                             (xp_reward ch div 4) else 0)
           \<and> actual_output sub =
               Some (qr_rows (fst (execute_query eng now (session_manager ce) sid sql)))"
  using assms by (simp add: validate_submission_def Let_def case_prod_unfold)

lemma validate_submission_raised:
  assumes "qr_success (fst (execute_query eng now (session_manager ce) sid sql))"
      and "validate_against_rules (fst (execute_query eng now (session_manager ce) sid sql))
             (validation_rules ch) = Inl err"
  shows "fst (validate_submission eng now ce sid ch sql h) = Inl err"
  using assms by (simp add: validate_submission_def Let_def case_prod_unfold)

lemma lower_samples:
  "lower ''ID'' = ''id''" "lower ''id'' = ''id''" "lower ''Id'' = ''id''"
  "lower ''NAME'' = ''name''" "lower ''name'' = ''name''" "lower ''Ann'' = ''ann''"
  "lower ''ANN'' = ''ann''"
  by code_simp+

lemma demo_rules_pass:
  "validate_against_rules
     \<lparr>qr_success = True, qr_rows = [[(''id'', VInt 1)], [(''id'', VInt 2)]],
      qr_columns = [''id''], qr_row_count = 2, qr_error_message = None,
      qr_execution_time_ms = 1\<rparr> demo_rules = Inr (True, AllPassed)"
  by (simp add: demo_rules_def demo_rule_def rows_equal_def norm_row_def lower_samples
        val_match_def Let_def)

lemma demo_validate:
  "fst (validate_submission demo_engine ''t2'' demo_engine_state ''s1''
          (demo_challenge demo_rules) ''select'' h) =
     Inr \<lparr>sub_challenge_id = ''select_003'', sub_session_id = ''s1'',
          submitted_sql = ''select'', submitted_at = ''t2'', passed = True,
          sub_execution_time_ms = 1, sub_hints_used = h,
          xp_earned = max (100 - h * 5) 25, sub_feedback = AllPassed,
          actual_output = Some [[(''id'', VInt 1)], [(''id'', VInt 2)]]\<rparr>"
proof -
  obtain sub where
    "fst (validate_submission demo_engine ''t2'' demo_engine_state ''s1''
          (demo_challenge demo_rules) ''select'' h) = Inr sub"
    "passed sub = True" "sub_feedback sub = AllPassed"
    using validate_submission_executed [of demo_engine "''t2''" demo_engine_state "''s1''" "''select''"
            "demo_challenge demo_rules" True AllPassed h]
    by (auto simp: demo_select demo_challenge_def demo_rules_pass)
  then show ?thesis
    by (simp add: validate_submission_def Let_def case_prod_unfold demo_select demo_challenge_def
          demo_rules_pass)
qed

lemma validate_against_rules_all_pass:
  "\<forall>r\<in>set rules. \<exists>fb. check_rule result r = Inr (True, fb) \<Longrightarrow>
   validate_against_rules result rules = Inr (True, AllPassed)"
  by (induction rules) auto

lemma validate_against_rules_first_failure:
  "\<forall>r\<in>set ps. \<exists>fb. check_rule result r = Inr (True, fb) \<Longrightarrow>
   check_rule result r = Inr (False, fb) \<Longrightarrow>
   validate_against_rules result (ps @ r # rest) = Inr (False, fb)"
  by (induction ps) auto

lemma py_eq_sym: "py_eq a b = py_eq b a"
  by (cases a; cases b) (auto split: option.splits)

lemma val_match_sym: "val_match cs a b = val_match cs b a"
  by (cases a; cases b) (auto simp: val_match_def py_eq_sym abs_minus_commute)

lemma distinct_fold_update:
  "distinct (map fst m) \<Longrightarrow>
   distinct (map fst (fold (\<lambda>(k, v) m. AList.update (lower k) v m) r m))"
  by (induction r arbitrary: m) (auto simp: distinct_update)

lemma distinct_norm_row: "distinct (map fst (norm_row r))"
  by (simp add: norm_row_def distinct_fold_update)

lemma rows_loop_iff:
  "rows_loop cs e a \<longleftrightarrow>
     (\<forall>(k, v)\<in>set e. val_match cs v (case map_of a k of None \<Rightarrow> VNone | Some w \<Rightarrow> w))"
  by (induction e) (auto simp: Let_def split: if_splits)

lemma rows_loop_sym:
  assumes "distinct (map fst e)" and "distinct (map fst a)"
      and "set (map fst e) = set (map fst a)"
      and "rows_loop cs e a"
  shows "rows_loop cs a e"
  unfolding rows_loop_iff
proof (clarify)
  fix k w assume kw: "(k, w) \<in> set a"
  then have "k \<in> set (map fst e)"
    using assms(3) by force
  then obtain v where kv: "(k, v) \<in> set e"
    by auto
  have "map_of e k = Some v"
    using kv assms(1) by simp
  moreover have "map_of a k = Some w"
    using kw assms(2) by simp
  moreover have "val_match cs v (case map_of a k of None \<Rightarrow> VNone | Some w \<Rightarrow> w)"
    using assms(4) kv unfolding rows_loop_iff by auto
  ultimately show "val_match cs w (case map_of e k of None \<Rightarrow> VNone | Some w \<Rightarrow> w)"
    by (simp add: val_match_sym)
qed

lemma rows_equal_sym: "rows_equal A B cs = rows_equal B A cs"
proof (cases "set (map fst (norm_row A)) = set (map fst (norm_row B))")
  case False
  then show ?thesis
    by (auto simp: rows_equal_def Let_def)
next
  case True
  have "rows_loop cs (norm_row A) (norm_row B) = rows_loop cs (norm_row B) (norm_row A)"
    using rows_loop_sym [OF distinct_norm_row distinct_norm_row True]
          rows_loop_sym [OF distinct_norm_row distinct_norm_row True [symmetric]]
    by blast
  with True show ?thesis
    by (simp add: rows_equal_def Let_def)
qed

lemma badge_earned_cong:
  "completed_challenges q = completed_challenges p \<Longrightarrow> current_streak q = current_streak p \<Longrightarrow>
   total_queries_executed q = total_queries_executed p \<Longrightarrow>
   badge_earned q b = badge_earned p b"
  by (simp add: badge_earned_def)

lemma threshold_holds_cong:
  "completed_challenges q = completed_challenges p \<Longrightarrow> current_streak q = current_streak p \<Longrightarrow>
   total_queries_executed q = total_queries_executed p \<Longrightarrow>
   threshold_holds q b = threshold_holds p b"
  by (simp add: threshold_holds_def split: criteria.splits)

text \<open>
  On a badge whose check cannot raise, the engine's decision is the threshold of the
  specification.
\<close>

lemma badge_earned_threshold:
  "badge_well_typed b \<Longrightarrow> badge_earned p b = Inr (threshold_holds p b)"
  by (cases "criteria_value b")
     (auto simp: badge_well_typed_def badge_earned_def threshold_holds_def)

text \<open>
  The loop over a list of badges with distinct identifiers, none of whose checks raises:
  it appends the identifiers of the badges not yet earned whose threshold holds, in
  order, and adds their bonuses.
\<close>

lemma check_badges_loop_result:
  assumes "distinct (map badge_id bs)"
      and "\<forall>b\<in>set bs. badge_well_typed b"
  shows "check_badges_loop bs p =
           Inr (p\<lparr>earned_badges := earned_badges p @
                     map badge_id (filter (\<lambda>b. badge_id b \<notin> set (earned_badges p)
                                              \<and> threshold_holds p b) bs),
                  total_xp := total_xp p +
                     sum_list (map xp_bonus (filter (\<lambda>b. badge_id b \<notin> set (earned_badges p)
                                              \<and> threshold_holds p b) bs))\<rparr>)"
  using assms
proof (induction bs arbitrary: p)
  case Nil
  then show ?case by simp
next
  case (Cons b bs)
  have d: "distinct (map badge_id bs)" and nb: "badge_id b \<notin> badge_id ` set bs"
    using Cons.prems(1) by auto
  have v: "badge_earned p b = Inr (threshold_holds p b)"
    using Cons.prems(2) by (simp add: badge_earned_threshold)
  have ok: "\<forall>c\<in>set bs. badge_well_typed c"
    using Cons.prems(2) by simp
  show ?case
  proof (cases "badge_id b \<in> set (earned_badges p) \<or> \<not> threshold_holds p b")
    case True
    have skip: "check_badges_loop (b # bs) p = check_badges_loop bs p"
      using True v by auto
    have no: "filter (\<lambda>b. badge_id b \<notin> set (earned_badges p) \<and> threshold_holds p b) (b # bs)
              = filter (\<lambda>b. badge_id b \<notin> set (earned_badges p) \<and> threshold_holds p b) bs"
      using True by auto
    show ?thesis
      unfolding skip no by (rule Cons.IH [OF d ok])
  next
    case False
    let ?p1 = "p\<lparr>earned_badges := earned_badges p @ [badge_id b],
                  total_xp := total_xp p + xp_bonus b\<rparr>"
    have step: "check_badges_loop (b # bs) p = check_badges_loop bs ?p1"
      using False v by auto
    have same: "filter (\<lambda>c. badge_id c \<notin> set (earned_badges ?p1) \<and> threshold_holds ?p1 c) bs
              = filter (\<lambda>c. badge_id c \<notin> set (earned_badges p) \<and> threshold_holds p c) bs"
    proof (rule filter_cong [OF refl])
      fix c assume c: "c \<in> set bs"
      have "badge_id c \<noteq> badge_id b"
      proof
        assume "badge_id c = badge_id b"
        then have "badge_id b \<in> badge_id ` set bs"
          using c by (metis imageI)
        with nb show False by simp
      qed
      moreover have "threshold_holds ?p1 c = threshold_holds p c"
        by (rule threshold_holds_cong) simp_all
      ultimately show "(badge_id c \<notin> set (earned_badges ?p1) \<and> threshold_holds ?p1 c)
                     = (badge_id c \<notin> set (earned_badges p) \<and> threshold_holds p c)"
        by simp
    qed
    have here: "badge_id b \<notin> set (earned_badges p) \<and> threshold_holds p b"
      using False by auto
    have yes: "filter (\<lambda>b. badge_id b \<notin> set (earned_badges p) \<and> threshold_holds p b) (b # bs)
              = b # filter (\<lambda>b. badge_id b \<notin> set (earned_badges p) \<and> threshold_holds p b) bs"
      using here by simp
    show ?thesis
      unfolding step Cons.IH [OF d ok] same yes by simp
  qed
qed

lemma BADGES_ids:
  "map badge_id BADGES =
     [''first_query'', ''first_challenge'', ''streak_3'', ''streak_7'', ''select_master'',
      ''join_expert'', ''speed_demon'', ''ten_challenges'']"
  by (simp add: BADGES_def mk_badge_def)

lemma BADGES_distinct: "distinct (map badge_id BADGES)"
  unfolding BADGES_ids by simp

lemma BADGES_well_typed: "list_all badge_well_typed BADGES"
  by (simp add: BADGES_def mk_badge_def badge_well_typed_def)

lemma BADGES_all_well_typed: "\<forall>b\<in>set BADGES. badge_well_typed b"
  using BADGES_well_typed unfolding list_all_iff .

lemma check_badges_result:
  "check_badges p =
     Inr (p\<lparr>earned_badges := earned_badges p @ map badge_id (newly_earned p p),
            total_xp := total_xp p + sum_list (map xp_bonus (newly_earned p p))\<rparr>)"
  unfolding check_badges_def newly_earned_def
  by (rule check_badges_loop_result [OF BADGES_distinct BADGES_all_well_typed])

lemma update_streak_frame:
  "earned_badges (update_streak today p) = earned_badges p"
  "total_xp (update_streak today p) = total_xp p"
  "completed_challenges (update_streak today p) = completed_challenges p"
  "longest_streak (update_streak today p) = longest_streak p"
  by (simp_all add: update_streak_def split: option.splits)

lemma record_pass_fields:
  "earned_badges (record_pass today sub p) = earned_badges p"
  "total_xp (record_pass today sub p) = total_xp p + xp_earned sub"
  "completed_challenges (record_pass today sub p) = completed_challenges p @ [sub_challenge_id sub]"
  by (simp_all add: record_pass_def Let_def update_streak_frame)

lemma newly_earned_cong:
  "completed_challenges q = completed_challenges p \<Longrightarrow> current_streak q = current_streak p \<Longrightarrow>
   total_queries_executed q = total_queries_executed p \<Longrightarrow>
   newly_earned before q = newly_earned before p"
  by (simp add: newly_earned_def threshold_holds_cong [of q p])

lemma update_progress_first_pass:
  assumes "passed sub"
      and "sub_challenge_id sub \<notin> set (completed_challenges (fst (get_user_progress ce uid)))"
  shows "progress_of (update_progress today ce uid sub) uid =
           Some ((record_pass today sub (fst (get_user_progress ce uid)))
                  \<lparr>earned_badges := earned_badges (fst (get_user_progress ce uid)) @
                      map badge_id (newly_earned (fst (get_user_progress ce uid))
                                      (record_pass today sub (fst (get_user_progress ce uid)))),
                    total_xp := total_xp (fst (get_user_progress ce uid)) + xp_earned sub +
                      sum_list (map xp_bonus (newly_earned (fst (get_user_progress ce uid))
                                      (record_pass today sub (fst (get_user_progress ce uid))))),
                    up_hints_used := up_hints_used (fst (get_user_progress ce uid))
                                       + sub_hints_used sub\<rparr>)"
proof -
  let ?p0 = "fst (get_user_progress ce uid)"
  let ?p5 = "record_pass today sub ?p0"
  have n: "newly_earned ?p5 ?p5 = newly_earned ?p0 ?p5"
    by (simp add: newly_earned_def record_pass_fields)
  have h: "up_hints_used ?p5 = up_hints_used ?p0"
    by (simp add: record_pass_def Let_def update_streak_def split: option.splits)
  show ?thesis
    using assms
    by (simp add: update_progress_def case_prod_unfold Let_def check_badges_result n h
          record_pass_fields progress_of_def)
qed

lemma demo_get_progress:
  "fst (get_user_progress (demo_progress_state done) ''u1'') = demo_progress done"
  by (simp add: get_user_progress_def demo_progress_state_def)

lemma demo_record_pass:
  "record_pass ''2024-01-02'' (demo_submission True ''select_003'' 0 100)
     (demo_progress [''select_001'', ''select_002'']) =
   \<lparr>user_id = ''u1'', total_xp = 140, current_level = 2, current_streak = 3,
    longest_streak = 3, last_activity_date = Some ''2024-01-02'',
    completed_challenges = [''select_001'', ''select_002'', ''select_003''],
    earned_badges = [''first_challenge''], total_queries_executed = 0, up_hints_used = 0\<rparr>"
  by (simp add: record_pass_def demo_submission_def demo_progress_def new_progress_def Let_def
        update_streak_def calculate_level_def LEVELS_def)

lemma demo_newly_earned:
  "map badge_id (newly_earned (demo_progress [''select_001'', ''select_002''])
     \<lparr>user_id = ''u1'', total_xp = 140, current_level = 2, current_streak = 3,
      longest_streak = 3, last_activity_date = Some ''2024-01-02'',
      completed_challenges = [''select_001'', ''select_002'', ''select_003''],
      earned_badges = [''first_challenge''], total_queries_executed = 0, up_hints_used = 0\<rparr>)
   = [''streak_3'']"
  "sum_list (map xp_bonus (newly_earned (demo_progress [''select_001'', ''select_002''])
     \<lparr>user_id = ''u1'', total_xp = 140, current_level = 2, current_streak = 3,
      longest_streak = 3, last_activity_date = Some ''2024-01-02'',
      completed_challenges = [''select_001'', ''select_002'', ''select_003''],
      earned_badges = [''first_challenge''], total_queries_executed = 0, up_hints_used = 0\<rparr>))
   = 0"
  by (simp_all add: newly_earned_def BADGES_def mk_badge_def threshold_holds_def
        demo_progress_def new_progress_def)

lemma demo_first_pass:
  "progress_of (update_progress ''2024-01-02'' (demo_progress_state [''select_001'', ''select_002''])
      ''u1'' (demo_submission True ''select_003'' 0 100)) ''u1'' =
   Some \<lparr>user_id = ''u1'', total_xp = 140, current_level = 2, current_streak = 3,
         longest_streak = 3, last_activity_date = Some ''2024-01-02'',
         completed_challenges = [''select_001'', ''select_002'', ''select_003''],
         earned_badges = [''first_challenge'', ''streak_3''], total_queries_executed = 0,
         up_hints_used = 0\<rparr>"
proof -
  have a: "passed (demo_submission True ''select_003'' 0 100)"
    by (simp add: demo_submission_def)
  have b: "sub_challenge_id (demo_submission True ''select_003'' 0 100)
             \<notin> set (completed_challenges
                      (fst (get_user_progress (demo_progress_state [''select_001'', ''select_002''])
                              ''u1'')))"
    by (simp add: demo_get_progress demo_submission_def demo_progress_def)
  show ?thesis
    unfolding update_progress_first_pass [OF a b] demo_get_progress demo_record_pass
              demo_newly_earned
    by (simp add: demo_progress_def new_progress_def demo_submission_def)
qed

section \<open>Properties of the session manager\<close>

text \<open>
  C4. Once \<open>delete_session\<close> has run for an identifier, \<open>execute_query\<close> for it answers
  with the failure "Session ... not found" and changes nothing, and each further
  \<open>delete_session\<close> for it returns \<open>False\<close> (twice in a row here) without raising.
\<close>

theorem execute_after_delete_not_found:
  "execute_query eng now (snd (delete_session mgr sid)) sid sql
     = (not_found_result sid, snd (delete_session mgr sid))
   \<and> \<not> qr_success (not_found_result sid)
   \<and> qr_error_message (not_found_result sid) = Some (not_found_message sid)
   \<and> delete_session (snd (delete_session mgr sid)) sid = (False, snd (delete_session mgr sid))
   \<and> delete_session (snd (delete_session (snd (delete_session mgr sid)) sid)) sid
       = (False, snd (delete_session mgr sid))"
proof -
  define m1 where "m1 = snd (delete_session mgr sid)"
  have a: "sessions m1 sid = None"
    unfolding m1_def by (rule sessions_after_delete)
  have d: "delete_session m1 sid = (False, m1)"
    using a by (rule delete_session_absent)
  have e: "execute_query eng now m1 sid sql = (not_found_result sid, m1)"
    by (simp add: execute_query_def get_session_absent [OF a])
  show ?thesis
    using d e unfolding m1_def [symmetric] by (simp add: not_found_result_def)
qed

theorem execute_after_delete_not_found_witness:
  "fst (delete_session (demo_manager 100) ''s1'')
   \<and> fst (execute_query demo_engine ''t1'' (snd (delete_session (demo_manager 100) ''s1''))
            ''s1'' ''select'') = not_found_result ''s1''
   \<and> \<not> fst (delete_session (snd (delete_session (demo_manager 100) ''s1'')) ''s1'')"
  using execute_after_delete_not_found [of demo_engine "''t1''" "demo_manager 100" "''s1''" "''select''"]
  by (simp add: delete_session_def demo_manager_session)

text \<open>
  C9. For a session that is present, \<open>reset_session\<close> returns \<open>True\<close>; the session keeps
  its identifier, mode and place in the registry, its history is empty and its backing
  store is what the adapter's reset leaves; a query after the reset is run by the adapter
  on that store. For an absent identifier it returns \<open>False\<close> and changes nothing.
\<close>

theorem reset_session_clears_history:
  "(sessions mgr sid = Some s \<and> is_active s \<longrightarrow>
      reset_session eng now mgr sid =
        (True, mgr\<lparr>sessions := (sessions mgr)(sid \<mapsto>
                 s\<lparr>last_activity_at := now,
                   adapter := Some (nuke_dbfile eng (attached_db eng s)),
                   query_history := []\<rparr>)\<rparr>)
      \<and> fst (execute_query eng now' (snd (reset_session eng now mgr sid)) sid sql)
          = fst (adapter_execute_query eng (nuke_dbfile eng (attached_db eng s)) sql))
   \<and> (sessions mgr sid = None \<longrightarrow> reset_session eng now mgr sid = (False, mgr))"
proof (intro conjI impI)
  assume p: "sessions mgr sid = Some s \<and> is_active s"
  show r: "reset_session eng now mgr sid =
        (True, mgr\<lparr>sessions := (sessions mgr)(sid \<mapsto>
                 s\<lparr>last_activity_at := now,
                   adapter := Some (nuke_dbfile eng (attached_db eng s)),
                   query_history := []\<rparr>)\<rparr>)"
    using p by (simp add: reset_session_def get_session_present adapter_reset_def)
  show "fst (execute_query eng now' (snd (reset_session eng now mgr sid)) sid sql)
          = fst (adapter_execute_query eng (nuke_dbfile eng (attached_db eng s)) sql)"
    using p unfolding r
    by (simp add: execute_query_def get_session_def attached_db_def Let_def split: prod.splits)
next
  assume "sessions mgr sid = None"
  then show "reset_session eng now mgr sid = (False, mgr)"
    by (simp add: reset_session_def get_session_absent)
qed

theorem reset_session_clears_history_witness:
  "fst (reset_session demo_engine ''t2'' (session_manager demo_engine_state) ''s1'')
   \<and> map_option query_history
        (sessions (snd (reset_session demo_engine ''t2'' (session_manager demo_engine_state) ''s1''))
           ''s1'') = Some []
   \<and> qr_success (fst (execute_query demo_engine ''t3''
        (snd (reset_session demo_engine ''t2'' (session_manager demo_engine_state) ''s1''))
        ''s1'' ''select''))
   \<and> \<not> fst (reset_session demo_engine ''t2'' (session_manager demo_engine_state) ''s9'')"
proof -
  have absent: "sessions (session_manager demo_engine_state) ''s9'' = None"
    by (simp add: demo_engine_state_def setup_challenge_def demo_challenge_def reset_session_def
        execute_query_def get_session_def demo_manager_session demo_manager_cap attached_db_def
        adapter_reset_def Let_def adapter_execute_query_def demo_engine_def trim_history_def
        demo_manager_def create_session_def new_manager_def)
  have run: "fst (adapter_execute_query demo_engine [] ''select'')
               = \<lparr>qr_success = True, qr_rows = [], qr_columns = [], qr_row_count = 0,
                  qr_error_message = None, qr_execution_time_ms = 1\<rparr>"
    by (simp add: adapter_execute_query_def demo_engine_def)
  let ?m = "session_manager demo_engine_state"
  let ?s = "the (sessions ?m ''s1'')"
  note t = reset_session_clears_history [of ?m "''s1''" ?s demo_engine "''t2''" "''t3''" "''select''"]
  have present: "sessions ?m ''s1'' = Some ?s \<and> is_active ?s"
    by (simp add: demo_state_session)
  have db: "nuke_dbfile demo_engine (attached_db demo_engine ?s) = []"
    by (simp add: demo_engine_def)
  have r: "reset_session demo_engine ''t2'' ?m ''s1'' =
             (True, ?m\<lparr>sessions := (sessions ?m)(''s1'' \<mapsto>
                ?s\<lparr>last_activity_at := ''t2'', adapter := Some [], query_history := []\<rparr>)\<rparr>)"
    using t present unfolding db by blast
  have e: "fst (execute_query demo_engine ''t3'' (snd (reset_session demo_engine ''t2'' ?m ''s1''))
             ''s1'' ''select'') = fst (adapter_execute_query demo_engine [] ''select'')"
    using t present unfolding db by blast
  have a: "reset_session demo_engine ''t2'' ?m ''s9'' = (False, ?m)"
    using reset_session_clears_history [of ?m "''s9''" _ demo_engine "''t2''"] absent by blast
  show ?thesis
    unfolding e unfolding r a by (simp add: run)
qed

text \<open>
  C5. With the history limit set to 0 the trimming slice \<open>history[-0:]\<close> is the whole
  list, so the history of a session holds one item after one query: more than the limit.
\<close>

theorem history_exceeds_zero_cap:
  "max_history_items (demo_manager 0) = 0
   \<and> (case sessions (snd (execute_query demo_engine ''t1'' (demo_manager 0) ''s1'' ''select'')) ''s1'' of
         None \<Rightarrow> False
       | Some s \<Rightarrow> map hi_sql (query_history s) = [''select''] \<and> length (query_history s) = 1)"
  by (simp add: execute_query_def get_session_def demo_manager_session demo_manager_cap
        attached_db_def Let_def adapter_execute_query_def demo_engine_def trim_history_def
        py_slice_from_def)

lemma py_slice_last:
  "0 < cap \<Longrightarrow> int (length h) > cap \<Longrightarrow> py_slice_from (- cap) h = drop (length h - nat cap) h"
  by (simp add: py_slice_from_def Let_def nat_diff_distrib')

lemma trim_history_pos: "0 < cap \<Longrightarrow> trim_history cap h = drop (length h - nat cap) h"
  by (auto simp: trim_history_def py_slice_last)

lemma length_trim_history_pos: "0 < cap \<Longrightarrow> int (length (trim_history cap h)) \<le> cap"
  by (auto simp: trim_history_pos)

lemma trim_history_zero: "trim_history 0 h = h"
  by (simp add: trim_history_def py_slice_from_def)

text \<open>
  For a positive limit the history of the session is, after a query, the last
  \<open>max_history_items\<close> entries of the old history followed by the new item, in order.
\<close>

lemma history_capped_positive:
  assumes "sessions mgr sid = Some s" and "is_active s" and "0 < max_history_items mgr"
  shows "\<exists>s' item. sessions (snd (execute_query eng now mgr sid sql)) sid = Some s'
           \<and> hi_sql item = sql
           \<and> query_history s' =
               drop (length (query_history s) + 1 - nat (max_history_items mgr))
                 (query_history s @ [item])
           \<and> int (length (query_history s')) \<le> max_history_items mgr"
  using assms
  by (simp add: execute_query_def get_session_present Let_def trim_history_pos split: prod.splits)

section \<open>Properties of the validation engine\<close>

text \<open>
  C3. With a base reward \<open>R \<ge> 0\<close>, a submission that passes earns
  \<open>max (R - H * P) (R div 4)\<close>, which is not negative; a submission that fails a rule, or
  whose query does not execute, earns 0 (and a query that does not execute never passes).
\<close>

theorem reward_floor:
  assumes "0 \<le> xp_reward ch"
      and "fst (validate_submission eng now ce sid ch sql h) = Inr sub"
  shows "(passed sub \<longrightarrow>
            xp_earned sub = max (xp_reward ch - h * hint_penalty_xp ch) (xp_reward ch div 4)
            \<and> 0 \<le> xp_earned sub)
       \<and> (\<not> passed sub \<longrightarrow> xp_earned sub = 0)
       \<and> (\<not> qr_success (fst (execute_query eng now (session_manager ce) sid sql))
            \<longrightarrow> \<not> passed sub)"
proof (cases "qr_success (fst (execute_query eng now (session_manager ce) sid sql))")
  case False
  from validate_submission_failed_query [OF False, of ch h] assms(2)
  show ?thesis by auto
next
  case True
  let ?res = "fst (execute_query eng now (session_manager ce) sid sql)"
  show ?thesis
  proof (cases "validate_against_rules ?res (validation_rules ch)")
    case (Inl err)
    from validate_submission_raised [OF True Inl, of h] assms(2) show ?thesis by simp
  next
    case (Inr v)
    obtain ok fb where v: "v = (ok, fb)" by (cases v)
    have floor: "0 \<le> xp_reward ch div 4"
      using assms(1) by simp
    from validate_submission_executed [OF True Inr [unfolded v], of h] assms(2) True floor
    show ?thesis by auto
  qed
qed

theorem reward_floor_witness:
  "0 \<le> xp_reward (demo_challenge demo_rules)
   \<and> map_sum id (\<lambda>sub. (passed sub, xp_earned sub))
        (fst (validate_submission demo_engine ''t2'' demo_engine_state ''s1''
               (demo_challenge demo_rules) ''select'' 30)) = Inr (True, 25)"
proof -
  have r: "0 \<le> xp_reward (demo_challenge demo_rules)"
    by (simp add: demo_challenge_def)
  from reward_floor [OF r demo_validate [of 30]] r show ?thesis
    by (simp add: demo_validate)
qed

text \<open>
  C10. \<open>validate_submission\<close> and \<open>setup_challenge\<close> leave the progress store as it is,
  whatever they do to the session; looking a user up creates at most a fresh record and
  changes no record that is there.
\<close>

theorem validation_keeps_progress:
  "user_progress (snd (validate_submission eng now ce sid ch sql h)) = user_progress ce
   \<and> user_progress (snd (setup_challenge eng now ce sid ch)) = user_progress ce
   \<and> (user_progress ce uid' \<noteq> None \<longrightarrow>
        user_progress (snd (get_user_progress ce uid)) uid' = user_progress ce uid')"
proof (intro conjI impI)
  show "user_progress (snd (validate_submission eng now ce sid ch sql h)) = user_progress ce"
    by (simp add: validate_submission_def Let_def case_prod_unfold split: sum.splits)
  show "user_progress (snd (setup_challenge eng now ce sid ch)) = user_progress ce"
    by (simp add: setup_challenge_def case_prod_unfold Let_def)
  assume "user_progress ce uid' \<noteq> None"
  then show "user_progress (snd (get_user_progress ce uid)) uid' = user_progress ce uid'"
    by (auto simp: get_user_progress_def split: option.splits)
qed

theorem validation_keeps_progress_witness:
  "user_progress (snd (validate_submission demo_engine ''t2'' (demo_progress_state [''select_001''])
       ''s1'' (demo_challenge demo_rules) ''select'' 0)) ''u1'' = Some (demo_progress [''select_001''])
   \<and> user_progress (snd (setup_challenge demo_engine ''t2'' (demo_progress_state [''select_001''])
       ''s1'' (demo_challenge demo_rules))) ''u1'' = Some (demo_progress [''select_001''])
   \<and> user_progress (snd (get_user_progress (demo_progress_state [''select_001'']) ''u2'')) ''u1''
       = Some (demo_progress [''select_001''])"
  using validation_keeps_progress [of demo_engine "''t2''" "demo_progress_state [''select_001'']"
          "''s1''" "demo_challenge demo_rules" "''select''" 0 "''u1''" "''u2''"]
  by (simp add: demo_progress_state_def)

text \<open>
  C1 (as the code has it). Whenever the query executes, the submission that
  \<open>validate_submission\<close> returns carries the result rows in \<open>actual_output\<close>, on a pass as on
  a failed rule; \<open>actual_output\<close> is \<open>None\<close> only when the query does not execute. The
  response that the submit route builds from the submission withholds the rows on a pass.
\<close>

theorem actual_output_when_executed:
  assumes "fst (validate_submission eng now ce sid ch sql h) = Inr sub"
  shows "actual_output sub =
           (if qr_success (fst (execute_query eng now (session_manager ce) sid sql))
            then Some (qr_rows (fst (execute_query eng now (session_manager ce) sid sql)))
            else None)
       \<and> resp_actual_output (submit_response sub) = (if passed sub then None else actual_output sub)"
proof (cases "qr_success (fst (execute_query eng now (session_manager ce) sid sql))")
  case False
  from validate_submission_failed_query [OF False, of ch h] assms False
  show ?thesis by (auto simp: submit_response_def)
next
  case True
  let ?res = "fst (execute_query eng now (session_manager ce) sid sql)"
  show ?thesis
  proof (cases "validate_against_rules ?res (validation_rules ch)")
    case (Inl err)
    from validate_submission_raised [OF True Inl, of h] assms show ?thesis by simp
  next
    case (Inr v)
    obtain ok fb where v: "v = (ok, fb)" by (cases v)
    from validate_submission_executed [OF True Inr [unfolded v], of h] assms True
    show ?thesis by (auto simp: submit_response_def)
  qed
qed

theorem actual_output_when_executed_witness:
  "map_sum id (\<lambda>sub. (passed sub, actual_output sub, resp_actual_output (submit_response sub)))
     (fst (validate_submission demo_engine ''t2'' demo_engine_state ''s1''
            (demo_challenge demo_rules) ''select'' 0))
   = Inr (True, Some [[(''id'', VInt 1)], [(''id'', VInt 2)]], None)"
  using actual_output_when_executed [OF demo_validate [of 0]]
  by (simp add: demo_validate submit_response_def)

text \<open>
  As the specification words it the property fails: a submission that executes and passes every rule comes
  back from \<open>validate_submission\<close> with its rows in \<open>actual_output\<close>.
\<close>

theorem passing_submission_output_counterexample:
  "qr_success (fst (execute_query demo_engine ''t2'' (session_manager demo_engine_state)
                 ''s1'' ''select''))
   \<and> map_sum id (\<lambda>sub. (passed sub, actual_output sub = None))
        (fst (validate_submission demo_engine ''t2'' demo_engine_state ''s1''
               (demo_challenge demo_rules) ''select'' 0)) = Inr (True, False)"
  by (simp add: demo_validate demo_select)

text \<open>
  C7. When the query executes, the rules are checked in their declared order: if every
  rule before \<open>r\<close> passes and \<open>r\<close> fails with feedback \<open>fb\<close>, the submission fails with
  exactly \<open>fb\<close>, whatever rules come after \<open>r\<close>; if every rule passes, the submission
  passes.
\<close>

theorem rules_checked_in_order:
  assumes "qr_success (fst (execute_query eng now (session_manager ce) sid sql))"
      and "\<forall>r\<in>set ps. \<exists>fb'. check_rule (fst (execute_query eng now (session_manager ce) sid sql)) r
              = Inr (True, fb')"
  shows "(validation_rules ch = ps @ r # rest
           \<and> check_rule (fst (execute_query eng now (session_manager ce) sid sql)) r = Inr (False, fb)
          \<longrightarrow> map_sum id (\<lambda>sub. (passed sub, sub_feedback sub))
                (fst (validate_submission eng now ce sid ch sql h)) = Inr (False, fb))
       \<and> (validation_rules ch = ps
          \<longrightarrow> map_sum id (\<lambda>sub. (passed sub, sub_feedback sub))
                (fst (validate_submission eng now ce sid ch sql h)) = Inr (True, AllPassed))"
proof (intro conjI impI)
  let ?res = "fst (execute_query eng now (session_manager ce) sid sql)"
  assume a: "validation_rules ch = ps @ r # rest \<and> check_rule ?res r = Inr (False, fb)"
  then have "validate_against_rules ?res (validation_rules ch) = Inr (False, fb)"
    using validate_against_rules_first_failure [OF assms(2), of r fb rest] by simp
  from validate_submission_executed [OF assms(1) this, of h]
  show "map_sum id (\<lambda>sub. (passed sub, sub_feedback sub))
          (fst (validate_submission eng now ce sid ch sql h)) = Inr (False, fb)"
    by auto
next
  let ?res = "fst (execute_query eng now (session_manager ce) sid sql)"
  assume a: "validation_rules ch = ps"
  then have "validate_against_rules ?res (validation_rules ch) = Inr (True, AllPassed)"
    using validate_against_rules_all_pass [OF assms(2)] by simp
  from validate_submission_executed [OF assms(1) this, of h]
  show "map_sum id (\<lambda>sub. (passed sub, sub_feedback sub))
          (fst (validate_submission eng now ce sid ch sql h)) = Inr (True, AllPassed)"
    by auto
qed

theorem rules_checked_in_order_witness:
  "qr_success (fst (execute_query demo_engine ''t2'' (session_manager demo_engine_state) ''s1'' ''select''))
   \<and> check_rule (fst (execute_query demo_engine ''t2'' (session_manager demo_engine_state) ''s1'' ''select''))
        (demo_rule ROW_COUNT (ExpInt 2) False) = Inr (True, RowCountMatches)
   \<and> check_rule (fst (execute_query demo_engine ''t2'' (session_manager demo_engine_state) ''s1'' ''select''))
        (demo_rule EXACT_MATCH (ExpInt 5) False) = Inl TypeError
   \<and> map_sum id (\<lambda>sub. (passed sub, sub_feedback sub))
        (fst (validate_submission demo_engine ''t2'' demo_engine_state ''s1''
               (demo_challenge demo_rules_failing) ''select'' 0))
       = Inr (False, ExpectedRowsGot (ExpInt 3) 2)
   \<and> map_sum id (\<lambda>sub. (passed sub, sub_feedback sub))
        (fst (validate_submission demo_engine ''t2'' demo_engine_state ''s1''
               (demo_challenge demo_rules) ''select'' 0))
       = Inr (True, AllPassed)"
proof -
  let ?res = "fst (execute_query demo_engine ''t2'' (session_manager demo_engine_state) ''s1'' ''select'')"
  have ok: "qr_success ?res"
    by (simp add: demo_select)
  have p1: "\<forall>r\<in>set [demo_rule ROW_COUNT (ExpInt 2) False]. \<exists>fb'. check_rule ?res r = Inr (True, fb')"
    by (simp add: demo_select demo_rule_def)
  have p2: "\<forall>r\<in>set demo_rules. \<exists>fb'. check_rule ?res r = Inr (True, fb')"
    by (simp add: demo_select demo_rules_def demo_rule_def rows_equal_def norm_row_def
          lower_samples val_match_def Let_def)
  have f: "check_rule ?res (demo_rule ROW_COUNT (ExpInt 3) False) = Inr (False, ExpectedRowsGot (ExpInt 3) 2)"
    by (simp add: demo_select demo_rule_def)
  have r: "validation_rules (demo_challenge demo_rules_failing) =
             [demo_rule ROW_COUNT (ExpInt 2) False] @ demo_rule ROW_COUNT (ExpInt 3) False
               # [demo_rule EXACT_MATCH (ExpInt 5) False]"
    by (simp add: demo_challenge_def demo_rules_failing_def)
  have r2: "validation_rules (demo_challenge demo_rules) = demo_rules"
    by (simp add: demo_challenge_def)
  have e: "check_rule ?res (demo_rule EXACT_MATCH (ExpInt 5) False) = Inl TypeError"
    by (simp add: demo_rule_def)
  from rules_checked_in_order [OF ok p1, of "demo_challenge demo_rules_failing"
         "demo_rule ROW_COUNT (ExpInt 3) False" "[demo_rule EXACT_MATCH (ExpInt 5) False]"
         "ExpectedRowsGot (ExpInt 3) 2" 0] r f
  have w1: "map_sum id (\<lambda>sub. (passed sub, sub_feedback sub))
        (fst (validate_submission demo_engine ''t2'' demo_engine_state ''s1''
               (demo_challenge demo_rules_failing) ''select'' 0))
       = Inr (False, ExpectedRowsGot (ExpInt 3) 2)"
    by blast
  from rules_checked_in_order [OF ok p2, of "demo_challenge demo_rules" _ _ _ 0] r2
  have w2: "map_sum id (\<lambda>sub. (passed sub, sub_feedback sub))
        (fst (validate_submission demo_engine ''t2'' demo_engine_state ''s1''
               (demo_challenge demo_rules) ''select'' 0))
       = Inr (True, AllPassed)"
    by blast
  show ?thesis
    using ok e w1 w2 p1 by (simp add: demo_select demo_rule_def)
qed

text \<open>
  C8. Row equality without case sensitivity gives the same answer whichever of the two
  rows is taken as the expected one.
\<close>

theorem rows_equal_symmetric:
  "rows_equal A B False = rows_equal B A False"
  by (rule rows_equal_sym)

theorem rows_equal_symmetric_witness:
  "rows_equal [(''ID'', VInt 1), (''name'', VStr ''Ann'')] [(''id'', VInt 1), (''NAME'', VStr ''ANN'')] False
   \<and> rows_equal [(''id'', VInt 1), (''NAME'', VStr ''ANN'')] [(''ID'', VInt 1), (''name'', VStr ''Ann'')] False
   \<and> \<not> rows_equal [(''ID'', VInt 1)] [(''id'', VInt 1), (''NAME'', VStr ''ANN'')] False
   \<and> \<not> rows_equal [(''id'', VInt 1), (''NAME'', VStr ''ANN'')] [(''ID'', VInt 1)] False"
proof -
  have a: "rows_equal [(''ID'', VInt 1), (''name'', VStr ''Ann'')]
             [(''id'', VInt 1), (''NAME'', VStr ''ANN'')] False"
    by (simp add: rows_equal_def norm_row_def lower_samples val_match_def Let_def)
  have b: "\<not> rows_equal [(''ID'', VInt 1)] [(''id'', VInt 1), (''NAME'', VStr ''ANN'')] False"
    by (simp add: rows_equal_def norm_row_def lower_samples val_match_def Let_def)
  show ?thesis
    using a b
      rows_equal_symmetric [of "[(''ID'', VInt 1), (''name'', VStr ''Ann'')]"
                               "[(''id'', VInt 1), (''NAME'', VStr ''ANN'')]"]
      rows_equal_symmetric [of "[(''ID'', VInt 1)]" "[(''id'', VInt 1), (''NAME'', VStr ''ANN'')]"]
    by simp
qed

section \<open>Properties of the progress store\<close>

text \<open>
  C6. For a user whose completed list already holds the challenge, recording another
  submission for it (passing or not) only adds the hints used: experience, level,
  streaks, activity date, completed challenges and badges stay as they are.
\<close>

theorem repeat_pass_changes_nothing:
  assumes "user_progress ce uid = Some p"
      and "sub_challenge_id sub \<in> set (completed_challenges p)"
  shows "update_progress today ce uid sub =
           Inr (ce\<lparr>user_progress := (user_progress ce)(uid \<mapsto>
                  p\<lparr>up_hints_used := up_hints_used p + sub_hints_used sub\<rparr>)\<rparr>)
       \<and> map_option total_xp (progress_of (update_progress today ce uid sub) uid)
           = Some (total_xp p)
       \<and> map_option current_streak (progress_of (update_progress today ce uid sub) uid)
           = Some (current_streak p)
       \<and> map_option longest_streak (progress_of (update_progress today ce uid sub) uid)
           = Some (longest_streak p)
       \<and> map_option current_level (progress_of (update_progress today ce uid sub) uid)
           = Some (current_level p)
       \<and> map_option last_activity_date (progress_of (update_progress today ce uid sub) uid)
           = Some (last_activity_date p)
       \<and> map_option completed_challenges (progress_of (update_progress today ce uid sub) uid)
           = Some (completed_challenges p)
       \<and> map_option earned_badges (progress_of (update_progress today ce uid sub) uid)
           = Some (earned_badges p)"
proof -
  have u: "update_progress today ce uid sub =
           Inr (ce\<lparr>user_progress := (user_progress ce)(uid \<mapsto>
                  p\<lparr>up_hints_used := up_hints_used p + sub_hints_used sub\<rparr>)\<rparr>)"
    using assms by (simp add: update_progress_def get_user_progress_def)
  show ?thesis
    unfolding u by (simp add: progress_of_def)
qed

theorem repeat_pass_changes_nothing_witness:
  "user_progress (demo_progress_state [''select_001'', ''select_003'']) ''u1''
     = Some (demo_progress [''select_001'', ''select_003''])
   \<and> passed (demo_submission True ''select_003'' 2 100)
   \<and> map_option total_xp
        (progress_of (update_progress ''2024-01-02'' (demo_progress_state [''select_001'', ''select_003''])
           ''u1'' (demo_submission True ''select_003'' 2 100)) ''u1'') = Some 40
   \<and> map_option up_hints_used
        (progress_of (update_progress ''2024-01-02'' (demo_progress_state [''select_001'', ''select_003''])
           ''u1'' (demo_submission True ''select_003'' 2 100)) ''u1'') = Some 2"
proof -
  have a: "user_progress (demo_progress_state [''select_001'', ''select_003'']) ''u1''
     = Some (demo_progress [''select_001'', ''select_003''])"
    by (simp add: demo_progress_state_def)
  have b: "sub_challenge_id (demo_submission True ''select_003'' 2 100)
             \<in> set (completed_challenges (demo_progress [''select_001'', ''select_003'']))"
    by (simp add: demo_submission_def demo_progress_def)
  from repeat_pass_changes_nothing [OF a b, of "''2024-01-02''"] a show ?thesis
    by (simp add: progress_of_def demo_submission_def demo_progress_def new_progress_def)
qed

text \<open>
  What the engine does award. After \<open>update_progress\<close> records a first passing
  submission, the earned badges are the old ones followed by every badge of \<open>BADGES\<close> not
  earned before whose challenge-count, streak or query-count threshold is reached on the
  updated progress, and the total experience is the old total plus the reward plus the
  bonus of each badge so added.
\<close>

lemma threshold_badges_awarded:
  assumes "passed sub"
      and "sub_challenge_id sub \<notin> set (completed_challenges (fst (get_user_progress ce uid)))"
  shows "\<exists>p'. progress_of (update_progress today ce uid sub) uid = Some p'
          \<and> earned_badges p' = earned_badges (fst (get_user_progress ce uid))
               @ map badge_id (newly_earned (fst (get_user_progress ce uid)) p')
          \<and> (\<forall>b\<in>set BADGES. badge_id b \<notin> set (earned_badges (fst (get_user_progress ce uid)))
                 \<and> threshold_holds p' b \<longrightarrow> badge_id b \<in> set (earned_badges p'))
          \<and> total_xp p' = total_xp (fst (get_user_progress ce uid)) + xp_earned sub
               + sum_list (map xp_bonus (newly_earned (fst (get_user_progress ce uid)) p'))"
proof -
  let ?p0 = "fst (get_user_progress ce uid)"
  let ?p5 = "record_pass today sub ?p0"
  let ?p' = "?p5\<lparr>earned_badges := earned_badges ?p0 @ map badge_id (newly_earned ?p0 ?p5),
                 total_xp := total_xp ?p0 + xp_earned sub
                   + sum_list (map xp_bonus (newly_earned ?p0 ?p5)),
                 up_hints_used := up_hints_used ?p0 + sub_hints_used sub\<rparr>"
  have n: "newly_earned ?p0 ?p' = newly_earned ?p0 ?p5"
    by (rule newly_earned_cong) simp_all
  have r: "progress_of (update_progress today ce uid sub) uid = Some ?p'"
    by (rule update_progress_first_pass [OF assms])
  have e: "earned_badges ?p' = earned_badges ?p0 @ map badge_id (newly_earned ?p0 ?p')"
    unfolding n by simp
  have x: "total_xp ?p' = total_xp ?p0 + xp_earned sub
               + sum_list (map xp_bonus (newly_earned ?p0 ?p'))"
    unfolding n by simp
  have a: "\<forall>b\<in>set BADGES. badge_id b \<notin> set (earned_badges ?p0) \<and> threshold_holds ?p' b
             \<longrightarrow> badge_id b \<in> set (earned_badges ?p')"
    unfolding e by (auto simp: newly_earned_def)
  show ?thesis
    using r e a x by blast
qed

text \<open>
  The badges of \<open>BADGES\<close> whose criteria type is \<open>category_complete\<close> or \<open>speed\<close> are never
  among the badges a pass adds, whatever the progress.
\<close>

lemma newly_earned_ids:
  "set (map badge_id (newly_earned before after))
     \<subseteq> {''first_query'', ''first_challenge'', ''streak_3'', ''streak_7'', ''ten_challenges''}"
  by (auto simp: newly_earned_def BADGES_def mk_badge_def threshold_holds_def)

lemma category_and_speed_badges_never_added:
  assumes "passed sub"
      and "sub_challenge_id sub \<notin> set (completed_challenges (fst (get_user_progress ce uid)))"
      and "progress_of (update_progress today ce uid sub) uid = Some p'"
      and "i \<in> {''select_master'', ''join_expert'', ''speed_demon''}"
      and "i \<in> set (earned_badges p')"
  shows "i \<in> set (earned_badges (fst (get_user_progress ce uid)))"
proof -
  from threshold_badges_awarded [OF assms(1,2), of today] assms(3)
  have e: "earned_badges p' = earned_badges (fst (get_user_progress ce uid))
             @ map badge_id (newly_earned (fst (get_user_progress ce uid)) p')"
    by auto
  have "i \<notin> set (map badge_id (newly_earned (fst (get_user_progress ce uid)) p'))"
    using newly_earned_ids [of "fst (get_user_progress ce uid)" p'] assms(4) by auto
  with assms(5) show ?thesis
    unfolding e by simp
qed

text \<open>
  C2. The property fails on the code for the category badges. The user has completed
  \<open>select_001\<close> and \<open>select_002\<close>; a first passing submission for \<open>select_003\<close> completes
  the category \<open>select_basics\<close>. The badge \<open>select_master\<close> of \<open>BADGES\<close>, whose criterion is
  the completion of that category and which was not earned before, is not among the
  earned badges afterwards: the streak badge is the only one added.
\<close>

theorem category_badge_not_awarded:
  "map (\<lambda>b. (criteria_type b, criteria_value b))
       (filter (\<lambda>b. badge_id b = ''select_master'') BADGES)
     = [(''category_complete'', CStr ''select_basics'')]
   \<and> ''select_master'' \<notin> set (earned_badges (demo_progress [''select_001'', ''select_002'']))
   \<and> (case progress_of (update_progress ''2024-01-02''
                (demo_progress_state [''select_001'', ''select_002''])
                ''u1'' (demo_submission True ''select_003'' 0 100)) ''u1'' of
         None \<Rightarrow> False
       | Some p' \<Rightarrow> category_complete_spec ''select_basics'' p'
                    \<and> ''select_master'' \<notin> set (earned_badges p')
                    \<and> earned_badges p' = [''first_challenge'', ''streak_3''])"
  by (simp add: demo_first_pass BADGES_def mk_badge_def demo_progress_def
        category_complete_spec_def catalogue_def)

end
